theory Spec2Isabelle
  imports Complex_Main
begin

section \<open>Expressions, constraints and the state of the two relaxations\<close>

text \<open>
  The cutting-plane transformation of \<^verbatim>\<open>pyomo/gdp/plugins/cuttingplane.py\<close> works on two
  model instances, the relaxed big-M instance \<^verbatim>\<open>instance_rBigM\<close> and the relaxed hull
  instance \<^verbatim>\<open>instance_rHull\<close>. A variable object of either instance is identified by a
  number (its identity), and one store holds the \<^verbatim>\<open>.value\<close> of every variable object.
  Python floats are idealised as real numbers (no rounding); the one infinite float the
  code uses, the initial \<^verbatim>\<open>prev_obj = float("inf")\<close>, is a constructor of its own.
\<close>

type_synonym var = nat

type_synonym valuation = "var \<Rightarrow> real"

datatype expr =
    Num real
  | V var
  | Add expr expr
  | Sub expr expr
  | Mul expr expr

text \<open>\<^verbatim>\<open>value(e)\<close>: the expression at the current values of its variables.\<close>

fun value_of :: "valuation \<Rightarrow> expr \<Rightarrow> real" where
  "value_of \<sigma> (Num c) = c"
| "value_of \<sigma> (V x) = \<sigma> x"
| "value_of \<sigma> (Add a b) = value_of \<sigma> a + value_of \<sigma> b"
| "value_of \<sigma> (Sub a b) = value_of \<sigma> a - value_of \<sigma> b"
| "value_of \<sigma> (Mul a b) = value_of \<sigma> a * value_of \<sigma> b"

text \<open>
  \<^verbatim>\<open>clone_without_expression_components(e, substitute=m)\<close>: a copy of the expression in
  which every variable that is a key of the dictionary is replaced by its image.
\<close>

fun clone_without_expression_components :: "(var \<rightharpoonup> var) \<Rightarrow> expr \<Rightarrow> expr" where
  "clone_without_expression_components m (Num c) = Num c"
| "clone_without_expression_components m (V x) = (case m x of None \<Rightarrow> V x | Some y \<Rightarrow> V y)"
| "clone_without_expression_components m (Add a b) =
     Add (clone_without_expression_components m a) (clone_without_expression_components m b)"
| "clone_without_expression_components m (Sub a b) =
     Sub (clone_without_expression_components m a) (clone_without_expression_components m b)"
| "clone_without_expression_components m (Mul a b) =
     Mul (clone_without_expression_components m a) (clone_without_expression_components m b)"

text \<open>
  A relational expression \<^verbatim>\<open>a <= b\<close> with its two arguments \<^verbatim>\<open>args[0]\<close>, \<^verbatim>\<open>args[1]\<close>.
  Python's \<^verbatim>\<open>e >= 0\<close> builds the inequality \<^verbatim>\<open>0 <= e\<close>.
\<close>

datatype ineq = Le expr expr

fun arg0 :: "ineq \<Rightarrow> expr" where
  "arg0 (Le a b) = a"

fun arg1 :: "ineq \<Rightarrow> expr" where
  "arg1 (Le a b) = b"

text \<open>\<^verbatim>\<open>value(cut)\<close> of a relational expression: whether it holds at the current values.\<close>

fun holds :: "valuation \<Rightarrow> ineq \<Rightarrow> bool" where
  "holds \<sigma> (Le a b) = (value_of \<sigma> a \<le> value_of \<sigma> b)"

text \<open>The expression of a constraint of the hull instance: an inequality, an equality or a range.\<close>

datatype relational = Inequality ineq | Equality expr expr | Ranged expr expr expr

text \<open>A constraint object: \<^verbatim>\<open>lower <= body <= upper\<close>, either bound optional.\<close>

record constraint =
  lower :: "expr option"
  body :: expr
  upper :: "expr option"

definition satisfied :: "valuation \<Rightarrow> constraint \<Rightarrow> bool" where
  "satisfied \<sigma> c =
     ((case lower c of None \<Rightarrow> True | Some l \<Rightarrow> value_of \<sigma> l \<le> value_of \<sigma> (body c)) \<and>
      (case upper c of None \<Rightarrow> True | Some u \<Rightarrow> value_of \<sigma> (body c) \<le> value_of \<sigma> u))"

text \<open>
  Modelled from the spec: the model representation's constraint container (section 6,
  "constraints (body expression, lower/upper bound, activation flag)") is not part of
  this module. \<^verbatim>\<open>cuts.add(i, a <= b)\<close> stores the inequality with the constant side as the
  bound and the other side as the body; with no constant side the body is the difference.
\<close>

fun constraint_of :: "ineq \<Rightarrow> constraint" where
  "constraint_of (Le a (Num u)) = \<lparr>lower = None, body = a, upper = Some (Num u)\<rparr>"
| "constraint_of (Le (Num l) b) = \<lparr>lower = Some (Num l), body = b, upper = None\<rparr>"
| "constraint_of (Le a b) = \<lparr>lower = None, body = Sub a b, upper = Some (Num 0)\<rparr>"

text \<open>
  A constraint of the hull instance with its \<^verbatim>\<open>.expr\<close>, the relational expression it was
  declared with.
\<close>

record hull_constraint = constraint +
  expr :: relational

datatype error = NameError | ZeroDivisionError | KeyError | IndexError | ValueError | GDP_Error

text \<open>
  How control stands in \<^verbatim>\<open>_generate_cuttingplanes\<close>: still in the \<^verbatim>\<open>while\<close> loop, left
  through one of the two \<^verbatim>\<open>return\<close> statements that follow a solver warning
  (\<open>SOLVE_FAILED\<close>), through the \<^verbatim>\<open>break\<close> on a small separation objective
  (\<open>CONVERGED\<close>), through the \<^verbatim>\<open>break\<close> on \<^verbatim>\<open>cuts is None or not improving\<close>
  (\<open>STALLED\<close>), or by an exception.
\<close>

datatype control = ITERATING | CONVERGED | STALLED | SOLVE_FAILED | RAISED error

text \<open>The three answers of \<^verbatim>\<open>verify_successful_solve\<close>.\<close>

datatype solve_status = NORMAL | INFEASIBLE | NONOPTIMAL

text \<open>What the module writes to its logger at warning level.\<close>

datatype message =
    Warn_rBigM_not_normal
  | Warn_rBigM_objective real
  | Warn_hull_not_normal
  | Warn_adding_cut nat
  | Warn_back_off_not_normal

datatype pyfloat = Finite real | Infinity

text \<open>
  The mutable state: the cut store \<^verbatim>\<open>transBlock_rBigM.cuts\<close> (an indexed constraint, kept
  as the list of its index-constraint pairs in the order of insertion), the values of the
  variables, the values of the \<^verbatim>\<open>xstar\<close> parameters, the objectives of the hull instance,
  the locals \<^verbatim>\<open>results\<close>, \<^verbatim>\<open>rBigM_objVal\<close>, \<^verbatim>\<open>improving\<close> and \<^verbatim>\<open>prev_obj\<close> of
  \<^verbatim>\<open>_generate_cuttingplanes\<close>, and the log.
\<close>

record state =
  cuts :: "(nat \<times> constraint) list"
  var_value :: valuation
  xstar :: "nat \<Rightarrow> real"
  separation_active :: bool
  infeasibility_objective :: "expr option"
  results :: "solve_status option"
  rBigM_objVal :: real
  improving :: bool
  prev_obj :: pyfloat
  control :: control
  logger :: "message list"

text \<open>
  One entry of \<^verbatim>\<open>var_info\<close>: the big-M variable, the hull variable and the index of the
  \<^verbatim>\<open>xstar\<close> parameter of the same original variable.
\<close>

type_synonym triple = "var \<times> var \<times> nat"

section \<open>The normal-vector cut generator\<close>

text \<open>
  \<^verbatim>\<open>
  cutexpr = 0
  for x_rbigm, x_hull, x_star in var_info:
      cutexpr += (x_hull.value - x_star.value)*(x_rbigm - x_hull.value)
  if value(cutexpr) < -TOL:
      return [cutexpr >= 0]
  return None
  \<close>
\<close>

definition normal_vector_cutexpr :: "triple list \<Rightarrow> state \<Rightarrow> expr" where
  "normal_vector_cutexpr var_info s =
     foldl (\<lambda>cutexpr (x_rbigm, x_hull, x_star).
              Add cutexpr (Mul (Num (var_value s x_hull - xstar s x_star))
                               (Sub (V x_rbigm) (Num (var_value s x_hull)))))
           (Num 0) var_info"

definition create_cuts_normal_vector :: "triple list \<Rightarrow> state \<Rightarrow> real \<Rightarrow> ineq list option" where
  "create_cuts_normal_vector var_info s TOL =
     (let cutexpr = normal_vector_cutexpr var_info s in
      if value_of (var_value s) cutexpr < - TOL then Some [Le (Num 0) cutexpr] else None)"

section \<open>The Fourier-Motzkin cut generator\<close>

text \<open>
  The collaborators of \<^verbatim>\<open>create_cuts_fme\<close> that live outside this module: symbolic
  differentiation (one derivative per variable of \<^verbatim>\<open>wrt_list\<close>), the polynomial degree of
  an expression, and the Fourier-Motzkin elimination, which is given the constraint list,
  the variables to eliminate and the zero tolerance and answers with the expressions
  \<^verbatim>\<open>lb <= body\<close> of its projected constraints. Nothing is assumed about them.
\<close>

record collaborators =
  differentiate :: "expr \<Rightarrow> var list \<Rightarrow> expr list"
  polynomial_degree :: "expr \<Rightarrow> nat option"
  fourier_motzkin_elimination :: "relational list \<Rightarrow> var list \<Rightarrow> real \<Rightarrow> ineq list"

text \<open>
  \<^verbatim>\<open>
  def _get_constraint_exprs(constraints, hull_to_bigm_map):
      cuts = []
      for cons in constraints:
          cuts.append(clone_without_expression_components(
              cons.expr, substitute=hull_to_bigm_map))
      return cuts
  \<close>
\<close>

fun clone_ineq :: "(var \<rightharpoonup> var) \<Rightarrow> ineq \<Rightarrow> ineq" where
  "clone_ineq m (Le a b) =
     Le (clone_without_expression_components m a) (clone_without_expression_components m b)"

definition get_constraint_exprs :: "ineq list \<Rightarrow> (var \<rightharpoonup> var) \<Rightarrow> ineq list" where
  "get_constraint_exprs constraints hull_to_bigm_map = map (clone_ineq hull_to_bigm_map) constraints"

text \<open>
  Modelled from the spec: the symbolic model representation (section 6) is an external
  collaborator. In \<^verbatim>\<open>create_cuts_fme\<close> a Python value built by arithmetic is a native
  number (\<open>Num c\<close>) or an expression, and the representation folds trivial operands: a
  product with the number 0 is the number 0 and a product with 1 is the other factor; a
  sum or difference with the number 0 is the other operand. So a sum all of whose terms
  have the coefficient 0 still is the number 0. A comparison of two numbers is a Python
  Boolean and not a relational expression, and an indexed constraint refuses a Boolean
  with \<^verbatim>\<open>ValueError\<close>.
\<close>

fun py_mul :: "real \<Rightarrow> expr \<Rightarrow> expr" where
  "py_mul c (Num x) = Num (c * x)"
| "py_mul c e = (if c = 0 then Num 0 else if c = 1 then e else Mul (Num c) e)"

fun py_add :: "expr \<Rightarrow> expr \<Rightarrow> expr" where
  "py_add (Num x) (Num y) = Num (x + y)"
| "py_add a (Num y) = (if y = 0 then a else Add a (Num y))"
| "py_add (Num x) b = (if x = 0 then b else Add (Num x) b)"
| "py_add a b = Add a b"

fun py_sub :: "expr \<Rightarrow> expr \<Rightarrow> expr" where
  "py_sub (Num x) (Num y) = Num (x - y)"
| "py_sub a (Num y) = (if y = 0 then a else Sub a (Num y))"
| "py_sub a b = Sub a b"

datatype py_relation = Trivial bool | Relation ineq

text \<open>\<^verbatim>\<open>a <= b\<close> on two Python values.\<close>

fun py_le :: "expr \<Rightarrow> expr \<Rightarrow> py_relation" where
  "py_le (Num x) (Num y) = Trivial (x \<le> y)"
| "py_le a b = Relation (Le a b)"

text \<open>\<^verbatim>\<open>conslist[len(conslist)] = r\<close>: the relational expression, or \<^verbatim>\<open>ValueError\<close>.\<close>

fun as_constraint :: "py_relation \<Rightarrow> error + ineq" where
  "as_constraint (Trivial b) = Inl ValueError"
| "as_constraint (Relation r) = Inr r"

text \<open>
  \<^verbatim>\<open>
  def _constraint_tight(model, constraint):
      val = value(constraint.body)
      ans = 0
      if constraint.lower is not None:
          if value(constraint.lower) >= val:
              ans -= 1
      if constraint.upper is not None:
          if value(constraint.upper) <= val:
              ans += 1
      return ans
  \<close>
\<close>

definition constraint_tight :: "valuation \<Rightarrow> 'a constraint_scheme \<Rightarrow> int" where
  "constraint_tight \<sigma> c =
     (let val = value_of \<sigma> (body c);
          ans = 0;
          ans = (case lower c of
                   None \<Rightarrow> ans
                 | Some l \<Rightarrow> if value_of \<sigma> l \<ge> val then ans - 1 else ans);
          ans = (case upper c of
                   None \<Rightarrow> ans
                 | Some u \<Rightarrow> if value_of \<sigma> u \<le> val then ans + 1 else ans)
      in ans)"

text \<open>
  \<^verbatim>\<open>
  def _get_linear_approximation_expr(normal_vec, point):
      body = 0
      for coef, v in zip(point, normal_vec):
          body -= coef*v
      return body >= -sum(normal_vec[idx]*v.value for (idx, v) in
                         enumerate(point))
  \<close>
  The index \<^verbatim>\<open>normal_vec[idx]\<close> is out of range when the vector is shorter than the point.
  When every entry of the vector is zero (or the point is empty) the body still is the
  number 0 and the answer is a Boolean.
\<close>

definition get_linear_approximation_expr ::
  "real list \<Rightarrow> var list \<Rightarrow> valuation \<Rightarrow> error + py_relation" where
  "get_linear_approximation_expr normal_vec point \<sigma> =
     (let body = foldl (\<lambda>body (coef, v). py_sub body (py_mul v (V coef))) (Num 0)
                   (zip point normal_vec)
      in if length normal_vec < length point then Inl IndexError
         else Inr (py_le (Num (- (\<Sum>(idx, v)\<leftarrow>enumerate 0 point. normal_vec ! idx * \<sigma> v))) body))"

text \<open>
  The loop over the active constraints of the hull instance (in the deterministic order
  of \<^verbatim>\<open>component_data_objects\<close>; a constraint object is identified by its position), which
  collects \<^verbatim>\<open>normal_vectors\<close> and \<^verbatim>\<open>conslist\<close>. The assignment of line 139 raises
  \<^verbatim>\<open>ValueError\<close> when the linear approximation is a Boolean.
\<close>

fun collect_tight ::
  "collaborators \<Rightarrow> var list \<Rightarrow> nat list \<Rightarrow> valuation \<Rightarrow> (nat \<times> hull_constraint) list \<Rightarrow>
   real list list \<Rightarrow> relational list \<Rightarrow> error + (real list list \<times> relational list)" where
  "collect_tight ext rHull_vars disaggregation_constraints \<sigma> [] normal_vectors conslist =
     Inr (normal_vectors, conslist)"
| "collect_tight ext rHull_vars disaggregation_constraints \<sigma> ((i, c) # rest) normal_vectors conslist =
     (let multiplier = constraint_tight \<sigma> c in
      if multiplier \<noteq> 0 then
        let f = body c;
            firstDerivs = differentiate ext f rHull_vars;
            normal_vec = map (\<lambda>d. real_of_int multiplier * value_of \<sigma> d) firstDerivs
        in if polynomial_degree ext f = Some 1
           then collect_tight ext rHull_vars disaggregation_constraints \<sigma> rest
                  (normal_vectors @ [normal_vec]) (conslist @ [expr c])
           else (case get_linear_approximation_expr normal_vec rHull_vars \<sigma> of
                   Inl e \<Rightarrow> Inl e
                 | Inr r \<Rightarrow>
                     (case as_constraint r of
                        Inl e \<Rightarrow> Inl e
                      | Inr approximation \<Rightarrow>
                          collect_tight ext rHull_vars disaggregation_constraints \<sigma> rest
                            (normal_vectors @ [normal_vec])
                            (conslist @ [Inequality approximation])))
      else if i \<in> set disaggregation_constraints
      then collect_tight ext rHull_vars disaggregation_constraints \<sigma> rest
             normal_vectors (conslist @ [expr c])
      else collect_tight ext rHull_vars disaggregation_constraints \<sigma> rest normal_vectors conslist)"

text \<open>
  \<^verbatim>\<open>list(sum(_) for _ in zip(*tuple(normal_vectors)))\<close>: the sums of the columns, as many
  as the shortest vector has entries.
\<close>

definition zip_star :: "'a list list \<Rightarrow> 'a list list" where
  "zip_star xss =
     (case xss of
        [] \<Rightarrow> []
      | xs # rest \<Rightarrow>
          map (\<lambda>i. map (\<lambda>ys. ys ! i) xss) [0..<foldl min (length xs) (map length rest)])"

definition composite_normal :: "real list list \<Rightarrow> real list" where
  "composite_normal normal_vectors = map sum_list (zip_star normal_vectors)"

text \<open>
  \<^verbatim>\<open>
  for x_bigm, x_hull, x_star in var_info:
      composite_cutexpr_Hull += composite_normal_map[x_hull]*(x_hull - x_hull.value)
  \<close>
  A variable that is no key of the map raises \<^verbatim>\<open>KeyError\<close>.
\<close>

fun cutexpr_over_var_info ::
  "(var \<rightharpoonup> real) \<Rightarrow> valuation \<Rightarrow> triple list \<Rightarrow> expr \<Rightarrow> error + expr" where
  "cutexpr_over_var_info composite_normal_map \<sigma> [] composite_cutexpr_Hull =
     Inr composite_cutexpr_Hull"
| "cutexpr_over_var_info composite_normal_map \<sigma> ((x_bigm, x_hull, x_star) # rest)
       composite_cutexpr_Hull =
     (case composite_normal_map x_hull of
        None \<Rightarrow> Inl KeyError
      | Some n \<Rightarrow>
          cutexpr_over_var_info composite_normal_map \<sigma> rest
            (py_add composite_cutexpr_Hull
               (py_mul n (py_sub (V x_hull) (Num (\<sigma> x_hull))))))"

text \<open>
  \<^verbatim>\<open>
  for x_disaggregated in disaggregated_vars:
      normal_vec_component = composite_normal_map[x_disaggregated]
      composite_cutexpr_Hull += normal_vec_component*(x_disaggregated - x_disaggregated.value)
      vars_to_eliminate.add(x_disaggregated)
      if not do_fme and normal_vec_component != 0:
          do_fme = True
  \<close>
\<close>

fun cutexpr_over_disaggregated ::
  "(var \<rightharpoonup> real) \<Rightarrow> valuation \<Rightarrow> var list \<Rightarrow> expr \<times> bool \<Rightarrow> error + expr \<times> bool" where
  "cutexpr_over_disaggregated composite_normal_map \<sigma> [] (composite_cutexpr_Hull, do_fme) =
     Inr (composite_cutexpr_Hull, do_fme)"
| "cutexpr_over_disaggregated composite_normal_map \<sigma> (x_disaggregated # rest)
       (composite_cutexpr_Hull, do_fme) =
     (case composite_normal_map x_disaggregated of
        None \<Rightarrow> Inl KeyError
      | Some normal_vec_component \<Rightarrow>
          cutexpr_over_disaggregated composite_normal_map \<sigma> rest
            (py_add composite_cutexpr_Hull
               (py_mul normal_vec_component
                  (py_sub (V x_disaggregated) (Num (\<sigma> x_disaggregated)))),
             do_fme \<or> normal_vec_component \<noteq> 0))"

text \<open>
  Lines 117-201 of \<^verbatim>\<open>create_cuts_fme\<close>: the list \<^verbatim>\<open>cuts\<close> of projected constraints in the
  variables of the big-M instance, or \<^verbatim>\<open>None\<close> when no constraint is tight. The assignment
  \<^verbatim>\<open>conslist[len(conslist)] = composite_cutexpr_Hull <= 0\<close> of line 183 raises
  \<^verbatim>\<open>ValueError\<close> when the composite cut still is the number 0, that is when every
  coefficient it was given is zero.
\<close>

definition fme_translated_cuts ::
  "collaborators \<Rightarrow> var list \<Rightarrow> nat list \<Rightarrow> var list \<Rightarrow> hull_constraint list \<Rightarrow>
   triple list \<Rightarrow> (var \<rightharpoonup> var) \<Rightarrow> state \<Rightarrow> real \<Rightarrow> error + ineq list option" where
  "fme_translated_cuts ext disaggregated_vars disaggregation_constraints rHull_vars
       rHull_constraints var_info hull_to_bigm_map s zero_tolerance =
     (case collect_tight ext rHull_vars disaggregation_constraints (var_value s)
             (enumerate 0 rHull_constraints) [] [] of
        Inl e \<Rightarrow> Inl e
      | Inr (normal_vectors, conslist) \<Rightarrow>
          if normal_vectors = [] then Inr None
          else
            let composite_normal_map =
                  map_of (rev (zip rHull_vars (composite_normal normal_vectors)))
            in case cutexpr_over_var_info composite_normal_map (var_value s) var_info (Num 0) of
                 Inl e \<Rightarrow> Inl e
               | Inr cutexpr \<Rightarrow>
                   (case cutexpr_over_disaggregated composite_normal_map (var_value s)
                           disaggregated_vars (cutexpr, False) of
                      Inl e \<Rightarrow> Inl e
                    | Inr (composite_cutexpr_Hull, do_fme) \<Rightarrow>
                        (case as_constraint (py_le composite_cutexpr_Hull (Num 0)) of
                           Inl e \<Rightarrow> Inl e
                         | Inr composite_cut \<Rightarrow>
                             let conslist = conslist @ [Inequality composite_cut];
                                 projected_constraints =
                                   (if do_fme
                                    then fourier_motzkin_elimination ext conslist
                                           disaggregated_vars zero_tolerance
                                    else [composite_cut])
                             in Inr (Some (get_constraint_exprs projected_constraints
                                             hull_to_bigm_map)))))"

text \<open>
  \<^verbatim>\<open>
  best = 0
  best_cut = None
  for i in sorted(range(len(cuts)), reverse=True):
      cut = cuts[i]
      if value(cut):
          del cuts[i]
          continue
      assert len(cut.args) == 2
      cut_off = value(cut.args[0]) - value(cut.args[1])
      if cut_off > cut_threshold and cut_off > best:
          best = cut_off
          best_cut = cut
  if best_cut is not None:
      return [best_cut]
  return None
  \<close>
  Every cut is a two-argument inequality, so the assertion holds.
\<close>

definition consider_cut :: "valuation \<Rightarrow> real \<Rightarrow> real \<times> ineq option \<Rightarrow> ineq \<Rightarrow> real \<times> ineq option" where
  "consider_cut \<sigma> cut_threshold acc c =
     (case acc of (best, best_cut) \<Rightarrow>
        if holds \<sigma> c then (best, best_cut)
        else
          let cut_off = value_of \<sigma> (arg0 c) - value_of \<sigma> (arg1 c)
          in if cut_off > cut_threshold \<and> cut_off > best then (cut_off, Some c)
             else (best, best_cut))"

definition best_violated_cut :: "valuation \<Rightarrow> real \<Rightarrow> ineq list \<Rightarrow> ineq list option" where
  "best_violated_cut \<sigma> cut_threshold cs =
     (case snd (foldl (consider_cut \<sigma> cut_threshold) (0, None) (rev cs)) of
        None \<Rightarrow> None
      | Some best_cut \<Rightarrow> Some [best_cut])"

definition create_cuts_fme ::
  "collaborators \<Rightarrow> var list \<Rightarrow> nat list \<Rightarrow> var list \<Rightarrow> hull_constraint list \<Rightarrow>
   triple list \<Rightarrow> (var \<rightharpoonup> var) \<Rightarrow> state \<Rightarrow> real \<Rightarrow> real \<Rightarrow> error + ineq list option" where
  "create_cuts_fme ext disaggregated_vars disaggregation_constraints rHull_vars
       rHull_constraints var_info hull_to_bigm_map s cut_threshold zero_tolerance =
     (case fme_translated_cuts ext disaggregated_vars disaggregation_constraints rHull_vars
             rHull_constraints var_info hull_to_bigm_map s zero_tolerance of
        Inl e \<Rightarrow> Inl e
      | Inr None \<Rightarrow> Inr None
      | Inr (Some cs) \<Rightarrow> Inr (best_violated_cut (var_value s) cut_threshold cs))"

text \<open>The violation margin of a cut at a point, \<open>lower bound - body\<close>.\<close>

definition margin :: "valuation \<Rightarrow> ineq \<Rightarrow> real" where
  "margin \<sigma> c = value_of \<sigma> (arg0 c) - value_of \<sigma> (arg1 c)"

text \<open>
  The invariant of the selection loop after the cuts \<open>xs\<close>: with no best cut yet, \<open>best\<close>
  is still 0 and no violated cut seen exceeds the threshold; otherwise the best cut is a
  violated cut seen, \<open>best\<close> is its margin, above the threshold, and no violated cut seen
  has a larger margin.
\<close>

definition selection_invariant :: "valuation \<Rightarrow> real \<Rightarrow> ineq list \<Rightarrow> real \<times> ineq option \<Rightarrow> bool" where
  "selection_invariant \<sigma> thr xs acc =
     (case acc of
        (b, None) \<Rightarrow> b = 0 \<and> (\<forall>c\<in>set xs. \<not> holds \<sigma> c \<longrightarrow> margin \<sigma> c \<le> thr)
      | (b, Some c) \<Rightarrow> c \<in> set xs \<and> \<not> holds \<sigma> c \<and> margin \<sigma> c = b \<and> thr < b \<and>
                       (\<forall>c'\<in>set xs. \<not> holds \<sigma> c' \<longrightarrow> margin \<sigma> c' \<le> b))"

section \<open>The solver\<close>

text \<open>
  \<^verbatim>\<open>opt.solve(instance)\<close> is an external collaborator: it answers with a result object, read
  here through \<^verbatim>\<open>verify_successful_solve\<close>, and loads values into variables of the
  instance it was given. Nothing is assumed about the answers.
\<close>

record solver =
  solve_rBigM :: "state \<Rightarrow> solve_status \<times> (var \<rightharpoonup> real)"
  solve_rHull :: "state \<Rightarrow> solve_status \<times> (var \<rightharpoonup> real)"

definition load :: "(var \<rightharpoonup> real) \<Rightarrow> valuation \<Rightarrow> valuation" where
  "load solution \<sigma> = (\<lambda>x. case solution x of None \<Rightarrow> \<sigma> x | Some r \<Rightarrow> r)"

section \<open>Post-processing a cut\<close>

text \<open>\<^verbatim>\<open>cut._body += pad\<close> on the cut stored under index \<open>k\<close>.\<close>

definition add_to_body :: "nat \<Rightarrow> real \<Rightarrow> (nat \<times> constraint) list \<Rightarrow> (nat \<times> constraint) list" where
  "add_to_body k pad store =
     map (\<lambda>(i, c). if i = k then (i, c\<lparr>body := Add (body c) (Num pad)\<rparr>) else (i, c)) store"

text \<open>
  \<^verbatim>\<open>
  def _restore_objective(instance_rHull, transBlock_rHull):
      transBlock_rHull.del_component(transBlock_rHull.infeasibility_objective)
      transBlock_rHull.separation_objective.activate()
  \<close>
\<close>

definition restore_objective :: "state \<Rightarrow> state" where
  "restore_objective s = s\<lparr>infeasibility_objective := None, separation_active := True\<rparr>"

text \<open>
  \<^verbatim>\<open>back_off_constraint_with_calculated_cut_violation\<close>. The cut is the object stored
  under \<open>cut_number\<close>. The objective is built with the default sense. On a solve that is not
  normal the code logs its warning and then calls
  \<^verbatim>\<open>_restore_objective(instance_rHull, transBlock_rHull, orig_obj)\<close>; no name \<^verbatim>\<open>orig_obj\<close>
  exists in the function or the module, so evaluating the arguments raises
  \<^verbatim>\<open>NameError\<close> before anything is restored.
\<close>

definition back_off_constraint_with_calculated_cut_violation ::
  "solver \<Rightarrow> nat \<Rightarrow> (var \<rightharpoonup> var) \<Rightarrow> real \<Rightarrow> state \<Rightarrow> state" where
  "back_off_constraint_with_calculated_cut_violation opt cut_number bigm_to_hull_map TOL s =
     (case map_of (cuts s) cut_number of
        None \<Rightarrow> s\<lparr>control := RAISED KeyError\<rparr>
      | Some c \<Rightarrow>
          let s1 = s\<lparr>separation_active := False\<rparr>;
              objective = clone_without_expression_components bigm_to_hull_map (body c);
              s2 = s1\<lparr>infeasibility_objective := Some objective\<rparr>;
              (res, solution) = solve_rHull opt s2;
              s3 = s2\<lparr>var_value := load solution (var_value s2)\<rparr>
          in if res \<noteq> NORMAL
             then s3\<lparr>logger := logger s3 @ [Warn_back_off_not_normal], control := RAISED NameError\<rparr>
             else let val = value_of (var_value s3) objective - TOL;
                      s4 = (if val \<le> 0 then s3\<lparr>cuts := add_to_body cut_number \<bar>val\<bar> (cuts s3)\<rparr>
                            else s3)
                  in restore_objective s4)"

text \<open>\<^verbatim>\<open>back_off_constraint_by_fixed_tolerance\<close>: \<^verbatim>\<open>cut._body += TOL\<close>.\<close>

definition back_off_constraint_by_fixed_tolerance ::
  "solver \<Rightarrow> nat \<Rightarrow> (var \<rightharpoonup> var) \<Rightarrow> real \<Rightarrow> state \<Rightarrow> state" where
  "back_off_constraint_by_fixed_tolerance opt cut_number bigm_to_hull_map TOL s =
     (case map_of (cuts s) cut_number of
        None \<Rightarrow> s\<lparr>control := RAISED KeyError\<rparr>
      | Some c \<Rightarrow> s\<lparr>cuts := add_to_body cut_number TOL (cuts s)\<rparr>)"

section \<open>The separation driver\<close>

text \<open>
  The options of \<^verbatim>\<open>CONFIG\<close> that \<^verbatim>\<open>_generate_cuttingplanes\<close> reads. The two callbacks
  are functions, as in the source; \<^verbatim>\<open>post_process_cut\<close> may be \<^verbatim>\<open>None\<close>. A cut generator
  receives \<^verbatim>\<open>var_info\<close>, \<^verbatim>\<open>hull_to_bigm_map\<close>, the two instances (the state),
  \<^verbatim>\<open>cut_filtering_threshold\<close> and \<^verbatim>\<open>zero_tolerance\<close>; the remaining arguments of the
  source's call are fixed for the whole run and are taken by the generator that needs them
  before it is put into the configuration.
\<close>

record config =
  minimum_improvement_threshold :: real
  create_cuts :: "triple list \<Rightarrow> (var \<rightharpoonup> var) \<Rightarrow> state \<Rightarrow> real \<Rightarrow> real \<Rightarrow> error + ineq list option"
  post_process_cut :: "(solver \<Rightarrow> nat \<Rightarrow> (var \<rightharpoonup> var) \<Rightarrow> real \<Rightarrow> state \<Rightarrow> state) option"
  back_off_problem_tolerance :: real
  cut_filtering_threshold :: real
  zero_tolerance :: real

text \<open>
  \<^verbatim>\<open>dict((id(var_info[i][1]), var_info[i][0]) for i in range(len(var_info)))\<close> and its
  mirror image; in a dictionary the last binding of a key wins.
\<close>

definition create_hull_to_bigm_substitution_map :: "triple list \<Rightarrow> (var \<rightharpoonup> var)" where
  "create_hull_to_bigm_substitution_map var_info =
     map_of (rev (map (\<lambda>(x_rbigm, x_hull, x_star). (x_hull, x_rbigm)) var_info))"

definition create_bigm_to_hull_substition_map :: "triple list \<Rightarrow> (var \<rightharpoonup> var)" where
  "create_bigm_to_hull_substition_map var_info =
     map_of (rev (map (\<lambda>(x_rbigm, x_hull, x_star). (x_rbigm, x_hull)) var_info))"

text \<open>
  \<^verbatim>\<open>
  for x_rbigm, x_hull, x_star in var_info:
      x_star.value = x_rbigm.value
      x_hull.value = x_rbigm.value
  \<close>
\<close>

definition copy_xstar :: "triple list \<Rightarrow> state \<Rightarrow> state" where
  "copy_xstar var_info s =
     foldl (\<lambda>s (x_rbigm, x_hull, x_star).
              s\<lparr>xstar := (xstar s)(x_star := var_value s x_rbigm),
                var_value := (var_value s)(x_hull := var_value s x_rbigm)\<rparr>)
           s var_info"

text \<open>
  The value of \<^verbatim>\<open>transBlock_rHull.separation_objective\<close>, the sum of
  \<^verbatim>\<open>(x_hull - x_star)**2\<close> over \<^verbatim>\<open>var_info\<close> (built by \<^verbatim>\<open>_add_separation_objective\<close>).
\<close>

definition separation_objective :: "triple list \<Rightarrow> state \<Rightarrow> real" where
  "separation_objective var_info s =
     foldl (\<lambda>obj_expr (x_rbigm, x_hull, x_star).
              obj_expr + (var_value s x_hull - xstar s x_star)\<^sup>2)
           0 var_info"

text \<open>
  \<^verbatim>\<open>
  obj_diff = prev_obj - rBigM_objVal
  improving = math.isinf(obj_diff) or \
              ( abs(obj_diff) > epsilon if abs(rBigM_objVal) < 1 else
                abs(obj_diff/prev_obj) > epsilon )
  \<close>
  \<^verbatim>\<open>obj_diff\<close> is infinite exactly when \<^verbatim>\<open>prev_obj\<close> still is the initial
  \<^verbatim>\<open>float("inf")\<close>. Python's division raises \<^verbatim>\<open>ZeroDivisionError\<close> on a zero divisor.
\<close>

definition improving_test :: "pyfloat \<Rightarrow> real \<Rightarrow> real \<Rightarrow> error + bool" where
  "improving_test prev objVal epsilon =
     (case prev of
        Infinity \<Rightarrow> Inr True
      | Finite previous \<Rightarrow>
          let obj_diff = previous - objVal in
          if \<bar>objVal\<bar> < 1 then Inr (\<bar>obj_diff\<bar> > epsilon)
          else if previous = 0 then Inl ZeroDivisionError
          else Inr (\<bar>obj_diff / previous\<bar> > epsilon))"

text \<open>
  The test as the specification words it: improving iff the improvement is infinite, or
  \<open>\<bar>current\<bar> < 1\<close> and \<open>\<bar>improvement\<bar> > \<epsilon>\<close>, or \<open>\<bar>current\<bar> \<ge> 1\<close> and
  \<open>\<bar>improvement / previous\<bar> > \<epsilon>\<close>.
\<close>

definition improving_spec :: "pyfloat \<Rightarrow> real \<Rightarrow> real \<Rightarrow> bool" where
  "improving_spec prev current epsilon =
     (case prev of
        Infinity \<Rightarrow> True
      | Finite previous \<Rightarrow>
          (\<bar>current\<bar> < 1 \<and> \<bar>previous - current\<bar> > epsilon) \<or>
          (\<bar>current\<bar> \<ge> 1 \<and> \<bar>(previous - current) / previous\<bar> > epsilon))"

text \<open>
  Lines 670-712 of the loop body: solve the relaxed big-M instance, copy its solution to
  \<^verbatim>\<open>xstar\<close> and to the hull variables, compare the objectives, solve the separation
  problem. The result of the second \<^verbatim>\<open>opt.solve\<close> is not assigned: the test that follows
  it reads \<^verbatim>\<open>results\<close>, which still holds the answer of the first solve.
\<close>

definition solve_subproblems :: "config \<Rightarrow> solver \<Rightarrow> triple list \<Rightarrow> expr \<Rightarrow> state \<Rightarrow> state" where
  "solve_subproblems cfg opt var_info rBigM_obj s =
     (let epsilon = minimum_improvement_threshold cfg;
          (res, solution) = solve_rBigM opt s;
          s1 = s\<lparr>var_value := load solution (var_value s), results := Some res\<rparr>
      in if results s1 \<noteq> Some NORMAL
         then s1\<lparr>logger := logger s1 @ [Warn_rBigM_not_normal], control := SOLVE_FAILED\<rparr>
         else
           let objVal = value_of (var_value s1) rBigM_obj;
               s2 = copy_xstar var_info
                      (s1\<lparr>rBigM_objVal := objVal,
                          logger := logger s1 @ [Warn_rBigM_objective objVal]\<rparr>)
           in case improving_test (prev_obj s2) (rBigM_objVal s2) epsilon of
                Inl e \<Rightarrow> s2\<lparr>control := RAISED e\<rparr>
              | Inr imp \<Rightarrow>
                  let s3 = s2\<lparr>improving := imp\<rparr>;
                      (res_hull, solution_hull) = solve_rHull opt s3;
                      s4 = s3\<lparr>var_value := load solution_hull (var_value s3)\<rparr>
                  in if results s4 \<noteq> Some NORMAL
                     then s4\<lparr>logger := logger s4 @ [Warn_hull_not_normal], control := SOLVE_FAILED\<rparr>
                     else s4)"

text \<open>
  \<^verbatim>\<open>
  for cut in cuts:
      cut_number = len(transBlock_rBigM.cuts)
      logger.warning("Adding cut %s to BigM model." % (cut_number,))
      transBlock_rBigM.cuts.add(cut_number, cut)
      if self._config.post_process_cut is not None:
          self._config.post_process_cut(..., transBlock_rBigM.cuts[cut_number], ...)
  \<close>
  An exception of the callback ends the loop.
\<close>

definition add_cut :: "config \<Rightarrow> solver \<Rightarrow> (var \<rightharpoonup> var) \<Rightarrow> state \<Rightarrow> ineq \<Rightarrow> state" where
  "add_cut cfg opt bigm_to_hull_map s c =
     (if control s \<noteq> ITERATING then s
      else
        let cut_number = length (cuts s);
            s1 = s\<lparr>logger := logger s @ [Warn_adding_cut cut_number],
                   cuts := cuts s @ [(cut_number, constraint_of c)]\<rparr>
        in case post_process_cut cfg of
             None \<Rightarrow> s1
           | Some post_process \<Rightarrow>
               post_process opt cut_number bigm_to_hull_map (back_off_problem_tolerance cfg) s1)"

text \<open>Lines 714-748 of the loop body, from the test of the separation objective on.\<close>

definition generate_and_add :: "config \<Rightarrow> solver \<Rightarrow> triple list \<Rightarrow> state \<Rightarrow> state" where
  "generate_and_add cfg opt var_info s =
     (let epsilon = minimum_improvement_threshold cfg;
          hull_to_bigm_map = create_hull_to_bigm_substitution_map var_info;
          bigm_to_hull_map = create_bigm_to_hull_substition_map var_info
      in if \<bar>separation_objective var_info s\<bar> < epsilon then s\<lparr>control := CONVERGED\<rparr>
         else
           case create_cuts cfg var_info hull_to_bigm_map s
                  (cut_filtering_threshold cfg) (zero_tolerance cfg) of
             Inl e \<Rightarrow> s\<lparr>control := RAISED e\<rparr>
           | Inr new_cuts \<Rightarrow>
               (case new_cuts of
                  None \<Rightarrow> s\<lparr>control := STALLED\<rparr>
                | Some cs \<Rightarrow>
                    if \<not> improving s then s\<lparr>control := STALLED\<rparr>
                    else
                      let s1 = foldl (add_cut cfg opt bigm_to_hull_map) s cs
                      in if control s1 \<noteq> ITERATING then s1
                         else s1\<lparr>prev_obj := Finite (rBigM_objVal s1)\<rparr>))"

definition loop_body :: "config \<Rightarrow> solver \<Rightarrow> triple list \<Rightarrow> expr \<Rightarrow> state \<Rightarrow> state" where
  "loop_body cfg opt var_info rBigM_obj s =
     (let s1 = solve_subproblems cfg opt var_info rBigM_obj s
      in if control s1 \<noteq> ITERATING then s1
         else generate_and_add cfg opt var_info s1)"

text \<open>
  \<^verbatim>\<open>while (improving): ...\<close>, for at most \<open>n\<close> rounds. The source's loop has no bound; a
  state that still is \<open>ITERATING\<close> and improving after \<open>n\<close> rounds is a run that has not
  ended yet.
\<close>

fun while_improving :: "nat \<Rightarrow> config \<Rightarrow> solver \<Rightarrow> triple list \<Rightarrow> expr \<Rightarrow> state \<Rightarrow> state" where
  "while_improving 0 cfg opt var_info rBigM_obj s = s"
| "while_improving (Suc n) cfg opt var_info rBigM_obj s =
     (if control s = ITERATING \<and> improving s
      then while_improving n cfg opt var_info rBigM_obj (loop_body cfg opt var_info rBigM_obj s)
      else s)"

text \<open>
  \<^verbatim>\<open>_generate_cuttingplanes\<close>: \<^verbatim>\<open>improving = True\<close>, \<^verbatim>\<open>prev_obj = float("inf")\<close>, the
  \<^verbatim>\<open>GDP_Error\<close> when the relaxed big-M instance has no active objective, then the loop.
\<close>

definition generate_cuttingplanes ::
  "nat \<Rightarrow> config \<Rightarrow> solver \<Rightarrow> triple list \<Rightarrow> expr option \<Rightarrow> state \<Rightarrow> state" where
  "generate_cuttingplanes n cfg opt var_info rBigM_obj s =
     (let s0 = s\<lparr>improving := True, prev_obj := Infinity\<rparr>
      in case rBigM_obj of
           None \<Rightarrow> s0\<lparr>control := RAISED GDP_Error\<rparr>
         | Some obj \<Rightarrow> while_improving n cfg opt var_info obj s0)"

section \<open>Building the two relaxations\<close>

text \<open>
  \<^verbatim>\<open>_setup_subproblems\<close> orchestrates collaborators that live outside this module: the
  model representation and the big-M, hull and integrality reformulations. A model
  instance is a value of an arbitrary type; the collaborators are functions on it, and
  nothing is assumed about them. \<open>add_relaxation_block\<close> stands for lines 491-508 (the
  transformation block with \<^verbatim>\<open>all_vars\<close> and the empty \<^verbatim>\<open>cuts\<close>), \<open>all_vars\<close> reads the
  list \<^verbatim>\<open>all_vars\<close> of an instance's transformation block, \<open>linear_constraints\<close> stands for
  the loop of lines 548-561, and \<open>add_xstar_and_separation_objective\<close> for lines 570-583
  and 598.
\<close>

record 'm modelling =
  add_relaxation_block :: "'m \<Rightarrow> 'm"
  all_vars :: "'m \<Rightarrow> var list"
  hull_create_using :: "'m \<Rightarrow> 'm"
  get_disaggregated_vars :: "'m \<Rightarrow> var list \<times> nat list"
  relax_integer_vars :: "'m \<Rightarrow> 'm"
  bigm_apply_to :: "real option \<Rightarrow> 'm \<Rightarrow> 'm"
  linear_constraints :: "'m \<Rightarrow> ineq list"
  add_xstar_and_separation_objective :: "triple list \<Rightarrow> 'm \<Rightarrow> 'm"

text \<open>
  A \<^verbatim>\<open>tighten_relaxation\<close> callback is called with the instance and returns a model; as any
  Python function it may also change the instance it was given. Its answer is the pair of
  the model it returns and the instance as the call leaves it. The default returns its
  argument.
\<close>

definition do_not_tighten :: "'m \<Rightarrow> 'm \<times> 'm" where
  "do_not_tighten m = (m, m)"

text \<open>
  \<^verbatim>\<open>
  var_info = tuple(
      (v, transBlock_rHull.all_vars[i], transBlock_rHull.xstar[i])
      for i,v in enumerate(transBlock.all_vars))
  \<close>
\<close>

definition make_var_info :: "var list \<Rightarrow> var list \<Rightarrow> error + triple list" where
  "make_var_info bigm_all_vars hull_all_vars =
     (if length hull_all_vars < length bigm_all_vars then Inl IndexError
      else Inr (map (\<lambda>(i, v). (v, hull_all_vars ! i, i)) (enumerate 0 bigm_all_vars)))"

text \<open>
  \<^verbatim>\<open>
  tighter_instance = tighten_relaxation_callback(instance)
  instance_rHull = hullRelaxation.create_using(instance)
  (disaggregated_vars,
   disaggregation_constraints) = self._get_disaggregated_vars(instance_rHull)
  relaxIntegrality.apply_to(instance_rHull, transform_deactivated_blocks=True)
  bigMRelaxation.apply_to(instance, bigM=bigM)
  relaxIntegrality.apply_to(instance, transform_deactivated_blocks=True)
  ...
  return (instance, instance_rHull, var_info, disaggregated_vars,
          disaggregation_constraints, rBigM_linear_constraints, transBlockName)
  \<close>
\<close>

definition setup_subproblems ::
  "'m modelling \<Rightarrow> 'm \<Rightarrow> real option \<Rightarrow> ('m \<Rightarrow> 'm \<times> 'm) \<Rightarrow>
   error + 'm \<times> 'm \<times> triple list \<times> var list \<times> nat list \<times> ineq list" where
  "setup_subproblems ext instance bigM tighten_relaxation_callback =
     (let instance = add_relaxation_block ext instance;
          (tighter_instance, instance) = tighten_relaxation_callback instance;
          instance_rHull = hull_create_using ext instance;
          (disaggregated_vars, disaggregation_constraints) =
             get_disaggregated_vars ext instance_rHull;
          instance_rHull = relax_integer_vars ext instance_rHull;
          instance = bigm_apply_to ext bigM instance;
          instance = relax_integer_vars ext instance;
          rBigM_linear_constraints = linear_constraints ext instance
      in case make_var_info (all_vars ext instance) (all_vars ext instance_rHull) of
           Inl e \<Rightarrow> Inl e
         | Inr var_info \<Rightarrow>
             Inr (instance, add_xstar_and_separation_objective ext var_info instance_rHull,
                  var_info, disaggregated_vars, disaggregation_constraints,
                  rBigM_linear_constraints))"

section \<open>The default configuration and concrete inputs\<close>

text \<open>
  The defaults that \<^verbatim>\<open>CONFIG\<close> declares: \<^verbatim>\<open>minimum_improvement_threshold\<close> 0.01,
  \<^verbatim>\<open>create_cuts_normal_vector\<close>, \<^verbatim>\<open>back_off_constraint_with_calculated_cut_violation\<close>,
  \<^verbatim>\<open>back_off_problem_tolerance\<close> 1e-8, \<^verbatim>\<open>cut_filtering_threshold\<close> 0.001 and
  \<^verbatim>\<open>zero_tolerance\<close> 1e-9.
\<close>

definition CONFIG :: config where
  "CONFIG =
     \<lparr>minimum_improvement_threshold = 1 / 100,
      create_cuts = (\<lambda>var_info hull_to_bigm_map s TOL zero_tol.
                       Inr (create_cuts_normal_vector var_info s TOL)),
      post_process_cut = Some back_off_constraint_with_calculated_cut_violation,
      back_off_problem_tolerance = 1 / 10 ^ 8,
      cut_filtering_threshold = 1 / 1000,
      zero_tolerance = 1 / 10 ^ 9\<rparr>"

text \<open>
  The state in which \<^verbatim>\<open>_setup_subproblems\<close> hands the two instances to the driver: an
  empty cut store (\<^verbatim>\<open>transBlock.cuts = Constraint(NonNegativeIntegers)\<close>), the separation
  objective active, nothing solved yet.
\<close>

definition initial_state :: state where
  "initial_state =
     \<lparr>cuts = [], var_value = (\<lambda>_. 0), xstar = (\<lambda>_. 0),
      separation_active = True, infeasibility_objective = None, results = None,
      rBigM_objVal = 0, improving = True, prev_obj = Infinity, control = ITERATING,
      logger = []\<rparr>"

text \<open>
  A solver whose answers do not depend on the model: the relaxed big-M solve ends normally
  and loads the values \<open>x\<close>, every solve of the hull instance ends with status \<open>st\<close> and
  loads the values \<open>h\<close>.
\<close>

definition fixed_solver :: "(var \<rightharpoonup> real) \<Rightarrow> solve_status \<Rightarrow> (var \<rightharpoonup> real) \<Rightarrow> solver" where
  "fixed_solver x st h = \<lparr>solve_rBigM = (\<lambda>s. (NORMAL, x)), solve_rHull = (\<lambda>s. (st, h))\<rparr>"

text \<open>
  A two-disjunct linear program with known vertices: \<open>0 \<le> x \<le> 2\<close> and either
  \<open>x \<le> 3/2\<close> (indicator \<open>y1\<close>) or \<open>x \<le> 1/2\<close> (indicator \<open>y2\<close>). The big-M instance has the
  variables \<open>x, y1, y2\<close> under the numbers 0, 1, 2 and the hull instance has its copies
  under 3, 4, 5.
\<close>

definition two_disjunct_feasible :: "valuation \<Rightarrow> bool" where
  "two_disjunct_feasible \<sigma> =
     (0 \<le> \<sigma> 0 \<and> \<sigma> 0 \<le> 2 \<and>
      ((\<sigma> 1 = 1 \<and> \<sigma> 2 = 0 \<and> \<sigma> 0 \<le> 3 / 2) \<or> (\<sigma> 1 = 0 \<and> \<sigma> 2 = 1 \<and> \<sigma> 0 \<le> 1 / 2)))"

definition two_disjunct_var_info :: "triple list" where
  "two_disjunct_var_info = [(0, 3, 0), (1, 4, 1), (2, 5, 2)]"

text \<open>
  A hull instance for the Fourier-Motzkin generator: the hull copy 1 of the big-M variable
  0, one disaggregated variable 2 and the single constraint \<open>v2 \<le> 1\<close>. The stand-in for
  differentiation is exact on a body that is a single variable; the stand-in for the
  elimination answers with three fixed constraints on the hull variable.
\<close>

definition example_collaborators :: collaborators where
  "example_collaborators =
     \<lparr>differentiate = (\<lambda>f wrt_list. map (\<lambda>v. if f = V v then Num 1 else Num 0) wrt_list),
      polynomial_degree = (\<lambda>f. Some 1),
      fourier_motzkin_elimination =
        (\<lambda>conslist vars_to_eliminate zero_tol.
           [Le (Num 3) (V 1), Le (Num 5) (V 1), Le (Num 0) (V 1)])\<rparr>"

definition example_hull_constraints :: "hull_constraint list" where
  "example_hull_constraints =
     [\<lparr>lower = None, body = V 2, upper = Some (Num 1), expr = Inequality (Le (V 2) (Num 1))\<rparr>]"

text \<open>
  A solver for a minimisation whose optimum rises with the first cut: the relaxed big-M
  solve ends normally at \<open>x = 0\<close> while the cut store is empty and at \<open>x = 2\<close> afterwards;
  every solve of the hull instance ends normally at 1.
\<close>

definition cut_dependent_solver :: solver where
  "cut_dependent_solver =
     \<lparr>solve_rBigM = (\<lambda>s. if cuts s = [] then (NORMAL, [0 \<mapsto> 0]) else (NORMAL, [0 \<mapsto> 2])),
      solve_rHull = (\<lambda>s. (NORMAL, [1 \<mapsto> 1]))\<rparr>"

text \<open>
  A model representation for \<^verbatim>\<open>_setup_subproblems\<close> on numbers: the hull reformulation
  adds 100, the big-M reformulation adds 1, one variable.
\<close>

definition example_modelling :: "nat modelling" where
  "example_modelling =
     \<lparr>add_relaxation_block = (\<lambda>m. m), all_vars = (\<lambda>m. [0]),
      hull_create_using = (\<lambda>m. m + 100), get_disaggregated_vars = (\<lambda>m. ([], [])),
      relax_integer_vars = (\<lambda>m. m), bigm_apply_to = (\<lambda>M m. m + 1),
      linear_constraints = (\<lambda>m. []), add_xstar_and_separation_objective = (\<lambda>vi m. m)\<rparr>"

section \<open>Separation as a projection\<close>

text \<open>
  What a normal separation solve is meant to deliver: over a region \<open>P\<close> of points of the
  hull instance, the point that minimises the separation objective, the squared distance
  to the target values over \<^verbatim>\<open>var_info\<close>. The region is convex when it contains the
  segment between any two of its points.
\<close>

definition squared_distance :: "triple list \<Rightarrow> (nat \<Rightarrow> real) \<Rightarrow> valuation \<Rightarrow> real" where
  "squared_distance var_info target \<sigma> = (\<Sum>(b, h, t)\<leftarrow>var_info. (\<sigma> h - target t)\<^sup>2)"

definition convex_region :: "valuation set \<Rightarrow> bool" where
  "convex_region P =
     (\<forall>\<sigma>\<in>P. \<forall>\<tau>\<in>P. \<forall>l. 0 \<le> l \<and> l \<le> 1 \<longrightarrow> (\<lambda>x. (1 - l) * \<sigma> x + l * \<tau> x) \<in> P)"

definition closest_point :: "triple list \<Rightarrow> (nat \<Rightarrow> real) \<Rightarrow> valuation set \<Rightarrow> valuation \<Rightarrow> bool" where
  "closest_point var_info target P \<sigma> =
     (\<sigma> \<in> P \<and> (\<forall>\<tau>\<in>P. squared_distance var_info target \<sigma> \<le> squared_distance var_info target \<tau>))"

section \<open>Properties\<close>

lemma value_of_foldl_normal_vector:
  "value_of \<sigma> (foldl (\<lambda>cutexpr (x_rbigm, x_hull, x_star).
              Add cutexpr (Mul (Num (hv x_hull - xs x_star)) (Sub (V x_rbigm) (Num (hv x_hull)))))
           e var_info)
   = value_of \<sigma> e + (\<Sum>(b, h, t)\<leftarrow>var_info. (hv h - xs t) * (\<sigma> b - hv h))"
  by (induction var_info arbitrary: e) (auto simp: algebra_simps)

lemma value_of_normal_vector_cutexpr:
  "value_of \<sigma> (normal_vector_cutexpr var_info s)
   = (\<Sum>(b, h, t)\<leftarrow>var_info. (var_value s h - xstar s t) * (\<sigma> b - var_value s h))"
  by (simp add: normal_vector_cutexpr_def value_of_foldl_normal_vector)

lemma sum_at_target:
  assumes "\<forall>(b, h, t) \<in> set var_info. \<sigma> b = xs t"
  shows "(\<Sum>(b, h, t)\<leftarrow>var_info. (hv h - xs t) * (\<sigma> b - hv h))
       = (\<Sum>(b, h, t)\<leftarrow>var_info. (hv h - xs t) * (xs t - hv h))"
  using assms by (induction var_info) auto

text \<open>
  C6. The normal-vector generator builds the body
  \<open>\<Sum> (hull_value - target_value) * (linear_var - hull_value)\<close> over the triples and
  returns the single inequality \<open>0 \<le> body\<close> exactly when the body, evaluated at the target
  point, is below \<open>- TOL\<close>; otherwise it returns \<open>None\<close>. The code evaluates the body at the
  current values of the big-M variables; these are the target values whenever the driver
  calls the generator, which is the hypothesis.
\<close>

theorem create_cuts_normal_vector_iff:
  assumes "\<forall>(b, h, t) \<in> set var_info. var_value s b = xstar s t"
  shows "(\<forall>\<sigma>. value_of \<sigma> (normal_vector_cutexpr var_info s)
            = (\<Sum>(b, h, t)\<leftarrow>var_info. (var_value s h - xstar s t) * (\<sigma> b - var_value s h)))
       \<and> create_cuts_normal_vector var_info s TOL
           = (if (\<Sum>(b, h, t)\<leftarrow>var_info.
                     (var_value s h - xstar s t) * (xstar s t - var_value s h)) < - TOL
              then Some [Le (Num 0) (normal_vector_cutexpr var_info s)]
              else None)"
proof -
  have "value_of (var_value s) (normal_vector_cutexpr var_info s)
        = (\<Sum>(b, h, t)\<leftarrow>var_info. (var_value s h - xstar s t) * (xstar s t - var_value s h))"
    using sum_at_target [OF assms] by (simp add: value_of_normal_vector_cutexpr)
  then show ?thesis
    by (simp add: create_cuts_normal_vector_def value_of_normal_vector_cutexpr)
qed

theorem create_cuts_normal_vector_iff_witness:
  "create_cuts_normal_vector [(0, 2, 0), (1, 3, 1)]
     (initial_state\<lparr>var_value := (\<lambda>_. 2)(2 := 1, 3 := 1), xstar := (\<lambda>_. 2)\<rparr>) (1 / 1000)
   = Some [Le (Num 0) (Add (Add (Num 0) (Mul (Num (- 1)) (Sub (V 0) (Num 1))))
                             (Mul (Num (- 1)) (Sub (V 1) (Num 1))))]
   \<and> create_cuts_normal_vector [(0, 2, 0), (1, 3, 1)]
     (initial_state\<lparr>var_value := (\<lambda>_. 2)(2 := 2, 3 := 2), xstar := (\<lambda>_. 2)\<rparr>) (1 / 1000)
   = None"
  using create_cuts_normal_vector_iff
    [of "[(0, 2, 0), (1, 3, 1)]"
        "initial_state\<lparr>var_value := (\<lambda>_. 2)(2 := 1, 3 := 1), xstar := (\<lambda>_. 2)\<rparr>" "1 / 1000"]
    create_cuts_normal_vector_iff
    [of "[(0, 2, 0), (1, 3, 1)]"
        "initial_state\<lparr>var_value := (\<lambda>_. 2)(2 := 2, 3 := 2), xstar := (\<lambda>_. 2)\<rparr>" "1 / 1000"]
  by (simp add: normal_vector_cutexpr_def initial_state_def)

subsection \<open>Facts about the driver\<close>

lemmas run_defs =
  loop_body_def solve_subproblems_def generate_and_add_def CONFIG_def fixed_solver_def
  initial_state_def copy_xstar_def improving_test_def separation_objective_def
  create_cuts_normal_vector_def normal_vector_cutexpr_def add_cut_def
  back_off_constraint_with_calculated_cut_violation_def back_off_constraint_by_fixed_tolerance_def
  restore_objective_def add_to_body_def create_bigm_to_hull_substition_map_def
  create_hull_to_bigm_substitution_map_def load_def Let_def

lemma copy_xstar_fields:
  "cuts (copy_xstar vi s) = cuts s"
  "rBigM_objVal (copy_xstar vi s) = rBigM_objVal s"
  "prev_obj (copy_xstar vi s) = prev_obj s"
  "control (copy_xstar vi s) = control s"
  "results (copy_xstar vi s) = results s"
  "improving (copy_xstar vi s) = improving s"
  "logger (copy_xstar vi s) = logger s"
  "separation_active (copy_xstar vi s) = separation_active s"
  "infeasibility_objective (copy_xstar vi s) = infeasibility_objective s"
  unfolding copy_xstar_def by (induction vi arbitrary: s; simp add: split_def)+

lemma solve_subproblems_cuts: "cuts (solve_subproblems cfg opt vi obj s) = cuts s"
  by (simp add: solve_subproblems_def Let_def split_def copy_xstar_fields split: sum.splits)

lemma separation_objective_foldl_nonneg:
  "0 \<le> (a::real) \<Longrightarrow> 0 \<le> foldl (\<lambda>obj_expr (x_rbigm, x_hull, x_star).
              obj_expr + (hv x_hull - xs x_star)\<^sup>2) a vi"
proof (induction vi arbitrary: a)
  case Nil
  then show ?case by simp
next
  case (Cons t vi)
  have "0 \<le> a + (hv (fst (snd t)) - xs (snd (snd t)))\<^sup>2"
    using Cons.prems by simp
  then show ?case
    using Cons.IH by (simp add: split_def)
qed

lemma separation_objective_nonneg: "0 \<le> separation_objective vi s"
  unfolding separation_objective_def by (rule separation_objective_foldl_nonneg) simp

lemma solve_subproblems_cfg:
  "solve_subproblems (cfg\<lparr>create_cuts := g, post_process_cut := p\<rparr>) opt vi obj s
   = solve_subproblems cfg opt vi obj s"
  by (simp add: solve_subproblems_def)

lemma while_improving_stops:
  "control s \<noteq> ITERATING \<Longrightarrow> while_improving n cfg opt vi obj s = s"
  by (cases n) simp_all

lemma hull_status_never_read:
  "solve_subproblems cfg (opt\<lparr>solve_rHull := (\<lambda>s. (st, h s))\<rparr>) var_info obj s
   = solve_subproblems cfg (opt\<lparr>solve_rHull := (\<lambda>s. (st', h s))\<rparr>) var_info obj s"
  by (simp add: solve_subproblems_def Let_def split_def copy_xstar_fields split: sum.splits)

text \<open>
  C2. The claim: when the solve of the hull separation problem ends abnormally, the loop
  exits at once (\<open>SOLVE_FAILED\<close>) and no cut is generated or added in that round. The code
  does not assign the answer of that solve, and its test reads the answer of the relaxed
  big-M solve once more (\<open>hull_status_never_read\<close>). In the run below the separation solve
  ends \<open>NONOPTIMAL\<close>; the round logs no warning about it, adds a cut and stays in the loop.
\<close>

theorem hull_failure_ignored:
  "control (loop_body (CONFIG\<lparr>post_process_cut := None\<rparr>)
              (fixed_solver [0 \<mapsto> 2] NONOPTIMAL [1 \<mapsto> 1]) [(0, 1, 0)] (V 0) initial_state)
     = ITERATING
   \<and> cuts (loop_body (CONFIG\<lparr>post_process_cut := None\<rparr>)
              (fixed_solver [0 \<mapsto> 2] NONOPTIMAL [1 \<mapsto> 1]) [(0, 1, 0)] (V 0) initial_state)
     = [(0, \<lparr>lower = Some (Num 0),
              body = Add (Num 0) (Mul (Num (- 1)) (Sub (V 0) (Num 1))), upper = None\<rparr>)]
   \<and> logger (loop_body (CONFIG\<lparr>post_process_cut := None\<rparr>)
              (fixed_solver [0 \<mapsto> 2] NONOPTIMAL [1 \<mapsto> 1]) [(0, 1, 0)] (V 0) initial_state)
     = [Warn_rBigM_objective 2, Warn_adding_cut 0]"
  by (simp add: run_defs)

text \<open>
  C3 (amended). The code builds the auxiliary objective with the default sense and pads
  when the optimal value minus the tolerance is not positive: with \<open>v\<close> the value of the
  objective after a normal solve, the body of the cut grows by \<open>\<bar>v - TOL\<bar>\<close> exactly when
  \<open>v - TOL \<le> 0\<close> and the cut is left as it is otherwise; the separation objective is
  restored. The fixed-tolerance procedure adds \<open>TOL\<close> to the body. The witness is the cut
  \<open>0 \<le> 5 - x\<close> whose body reaches \<open>- 0.2\<close>: it becomes \<open>0 \<le> 5 - x + (0.2 + 1e-8)\<close>, and
  \<open>0 \<le> 5 - x + 1e-8\<close> with the fixed tolerance.
\<close>

theorem calculated_back_off_rule:
  assumes "map_of (cuts s) k = Some c"
      and "solve_rHull opt (s\<lparr>separation_active := False,
              infeasibility_objective := Some (clone_without_expression_components m (body c))\<rparr>)
           = (NORMAL, solution)"
      and "v = value_of (load solution (var_value s)) (clone_without_expression_components m (body c))"
  shows "cuts (back_off_constraint_with_calculated_cut_violation opt k m TOL s)
           = (if v - TOL \<le> 0 then add_to_body k \<bar>v - TOL\<bar> (cuts s) else cuts s)
       \<and> control (back_off_constraint_with_calculated_cut_violation opt k m TOL s) = control s
       \<and> separation_active (back_off_constraint_with_calculated_cut_violation opt k m TOL s)
       \<and> infeasibility_objective (back_off_constraint_with_calculated_cut_violation opt k m TOL s) = None
       \<and> cuts (back_off_constraint_by_fixed_tolerance opt k m TOL s) = add_to_body k TOL (cuts s)"
  using assms
  by (simp add: back_off_constraint_with_calculated_cut_violation_def
      back_off_constraint_by_fixed_tolerance_def restore_objective_def Let_def)

theorem calculated_back_off_rule_witness:
  "cuts (back_off_constraint_with_calculated_cut_violation
           (fixed_solver [0 \<mapsto> 2] NORMAL [1 \<mapsto> 26 / 5]) 0 [0 \<mapsto> 1] (1 / 10 ^ 8)
           (initial_state\<lparr>cuts := [(0, \<lparr>lower = Some (Num 0), body = Sub (Num 5) (V 0), upper = None\<rparr>)]\<rparr>))
   = [(0, \<lparr>lower = Some (Num 0), body = Add (Sub (Num 5) (V 0)) (Num (1 / 5 + 1 / 10 ^ 8)),
           upper = None\<rparr>)]
   \<and> cuts (back_off_constraint_by_fixed_tolerance
           (fixed_solver [0 \<mapsto> 2] NORMAL [1 \<mapsto> 26 / 5]) 0 [0 \<mapsto> 1] (1 / 10 ^ 8)
           (initial_state\<lparr>cuts := [(0, \<lparr>lower = Some (Num 0), body = Sub (Num 5) (V 0), upper = None\<rparr>)]\<rparr>))
   = [(0, \<lparr>lower = Some (Num 0), body = Add (Sub (Num 5) (V 0)) (Num (1 / 10 ^ 8)),
           upper = None\<rparr>)]"
  using calculated_back_off_rule
    [of "initial_state\<lparr>cuts := [(0, \<lparr>lower = Some (Num 0), body = Sub (Num 5) (V 0), upper = None\<rparr>)]\<rparr>"
        0 "\<lparr>lower = Some (Num 0), body = Sub (Num 5) (V 0), upper = None\<rparr>"
        "fixed_solver [0 \<mapsto> 2] NORMAL [1 \<mapsto> 26 / 5]" "[0 \<mapsto> 1]" "[1 \<mapsto> 26 / 5]"
        "- 1 / 5" "1 / 10 ^ 8"]
  by (simp add: initial_state_def fixed_solver_def add_to_body_def load_def)

text \<open>
  The claim as stated fails: with a measured value \<open>0.2\<close> and tolerance \<open>1e-8\<close> the
  difference is positive and the cut stays unpadded.
\<close>

theorem calculated_back_off_counterexample:
  "cuts (back_off_constraint_with_calculated_cut_violation
           (fixed_solver [0 \<mapsto> 2] NORMAL [1 \<mapsto> 24 / 5]) 0 [0 \<mapsto> 1] (1 / 10 ^ 8)
           (initial_state\<lparr>cuts := [(0, \<lparr>lower = Some (Num 0), body = Sub (Num 5) (V 0), upper = None\<rparr>)]\<rparr>))
   = [(0, \<lparr>lower = Some (Num 0), body = Sub (Num 5) (V 0), upper = None\<rparr>)]
   \<and> value_of (load [1 \<mapsto> 24 / 5] (var_value initial_state)) (Sub (Num 5) (V 1)) - 1 / 10 ^ 8 > 0"
  by (simp add: run_defs)

text \<open>
  C4. The claim: a back-off solve that does not end normally is logged and otherwise
  harmless; the cut stays unpadded, the separation objective is restored and no exception
  is raised. The code logs the warning and then raises \<open>NameError\<close>: the separation
  objective stays deactivated, the auxiliary objective stays on the hull instance, and the
  exception ends the driver's loop.
\<close>

theorem back_off_failure_raises:
  "control (back_off_constraint_with_calculated_cut_violation
              (fixed_solver [0 \<mapsto> 2] NONOPTIMAL [1 \<mapsto> 1]) 0 [0 \<mapsto> 1] (1 / 10 ^ 8)
              (initial_state\<lparr>cuts := [(0, \<lparr>lower = Some (Num 0), body = Sub (Num 5) (V 0), upper = None\<rparr>)]\<rparr>))
     = RAISED NameError
  \<and> separation_active (back_off_constraint_with_calculated_cut_violation
              (fixed_solver [0 \<mapsto> 2] NONOPTIMAL [1 \<mapsto> 1]) 0 [0 \<mapsto> 1] (1 / 10 ^ 8)
              (initial_state\<lparr>cuts := [(0, \<lparr>lower = Some (Num 0), body = Sub (Num 5) (V 0), upper = None\<rparr>)]\<rparr>))
     = False
  \<and> infeasibility_objective (back_off_constraint_with_calculated_cut_violation
              (fixed_solver [0 \<mapsto> 2] NONOPTIMAL [1 \<mapsto> 1]) 0 [0 \<mapsto> 1] (1 / 10 ^ 8)
              (initial_state\<lparr>cuts := [(0, \<lparr>lower = Some (Num 0), body = Sub (Num 5) (V 0), upper = None\<rparr>)]\<rparr>))
     = Some (Sub (Num 5) (V 1))
  \<and> control (loop_body CONFIG (fixed_solver [0 \<mapsto> 2] NONOPTIMAL [1 \<mapsto> 1]) [(0, 1, 0)] (V 0) initial_state)
     = RAISED NameError"
  by (simp add: run_defs)

text \<open>
  C5. In a round that reaches the test of the separation objective, a value below the
  threshold ends the loop in that round (\<open>CONVERGED\<close>): the round's result is the state
  after the two solves, the cut store is the one the round started with, the result does
  not depend on the cut generator or the post-processor (neither is called), and no
  further round runs. The separation objective is a sum of squares, so its absolute
  value, which the code tests, is the value itself.
\<close>

theorem converged_round:
  assumes "control (solve_subproblems cfg opt var_info obj s) = ITERATING"
      and "separation_objective var_info (solve_subproblems cfg opt var_info obj s)
             < minimum_improvement_threshold cfg"
  shows "loop_body cfg opt var_info obj s
           = (solve_subproblems cfg opt var_info obj s)\<lparr>control := CONVERGED\<rparr>
       \<and> cuts (loop_body cfg opt var_info obj s) = cuts s
       \<and> loop_body (cfg\<lparr>create_cuts := g, post_process_cut := p\<rparr>) opt var_info obj s
           = loop_body cfg opt var_info obj s
       \<and> while_improving n cfg opt var_info obj (loop_body cfg opt var_info obj s)
           = loop_body cfg opt var_info obj s"
proof -
  let ?s1 = "solve_subproblems cfg opt var_info obj s"
  have abs: "\<bar>separation_objective var_info ?s1\<bar> < minimum_improvement_threshold cfg"
    using assms(2) separation_objective_nonneg [of var_info ?s1] by simp
  have body: "loop_body cfg opt var_info obj s = ?s1\<lparr>control := CONVERGED\<rparr>"
    using assms(1) abs by (simp add: loop_body_def generate_and_add_def)
  have body': "loop_body (cfg\<lparr>create_cuts := g, post_process_cut := p\<rparr>) opt var_info obj s
                 = ?s1\<lparr>control := CONVERGED\<rparr>"
    using assms(1) abs by (simp add: loop_body_def generate_and_add_def solve_subproblems_cfg)
  have stop: "while_improving n cfg opt var_info obj (?s1\<lparr>control := CONVERGED\<rparr>)
                = ?s1\<lparr>control := CONVERGED\<rparr>"
    by (cases n) simp_all
  show ?thesis
    using body body' stop by (simp add: solve_subproblems_cuts)
qed

theorem converged_round_witness:
  "control (loop_body CONFIG (fixed_solver [0 \<mapsto> 2] NORMAL [1 \<mapsto> 2]) [(0, 1, 0)] (V 0) initial_state)
     = CONVERGED
   \<and> cuts (loop_body CONFIG (fixed_solver [0 \<mapsto> 2] NORMAL [1 \<mapsto> 2]) [(0, 1, 0)] (V 0) initial_state)
     = []"
  using converged_round [of CONFIG "fixed_solver [0 \<mapsto> 2] NORMAL [1 \<mapsto> 2]" "[(0, 1, 0)]" "V 0"
      initial_state]
  by (simp add: run_defs)

text \<open>
  The improving flag of a round is the result of \<open>improving_test\<close> on the previous and the
  current objective; the previous objective is infinite when the loop starts. The test
  agrees with the specification's formula whenever its division is defined, that is
  unless the previous objective is zero while the current one is at least one in absolute
  value. When the flag is false and the cut generator has returned, the
  loop ends (\<open>STALLED\<close>); a round that stays in the loop leaves its objective as the
  previous one.
\<close>

lemma improving_rule:
  "((prev \<noteq> Finite 0 \<or> \<bar>cur\<bar> < 1) \<longrightarrow>
      improving_test prev cur eps = Inr (improving_spec prev cur eps))
   \<and> (control (solve_subproblems cfg opt vi obj s) = ITERATING \<longrightarrow>
        improving_test (prev_obj s) (rBigM_objVal (solve_subproblems cfg opt vi obj s))
          (minimum_improvement_threshold cfg)
        = Inr (improving (solve_subproblems cfg opt vi obj s)))
   \<and> generate_cuttingplanes n cfg opt vi (Some obj) s
        = while_improving n cfg opt vi obj (s\<lparr>improving := True, prev_obj := Infinity\<rparr>)
   \<and> (\<not> improving t \<and> \<not> \<bar>separation_objective vi t\<bar> < minimum_improvement_threshold cfg
        \<and> create_cuts cfg vi (create_hull_to_bigm_substitution_map vi) t
             (cut_filtering_threshold cfg) (zero_tolerance cfg) = Inr r \<longrightarrow>
        generate_and_add cfg opt vi t = t\<lparr>control := STALLED\<rparr>
        \<and> while_improving n cfg opt vi obj (t\<lparr>control := STALLED\<rparr>) = t\<lparr>control := STALLED\<rparr>)
   \<and> (control (generate_and_add cfg opt vi t) = ITERATING \<longrightarrow>
        prev_obj (generate_and_add cfg opt vi t)
        = Finite (rBigM_objVal (generate_and_add cfg opt vi t)))"
proof -
  have a: "(prev \<noteq> Finite 0 \<or> \<bar>cur\<bar> < 1) \<longrightarrow>
      improving_test prev cur eps = Inr (improving_spec prev cur eps)"
    by (cases prev) (auto simp: improving_test_def improving_spec_def Let_def)
  have b: "control (solve_subproblems cfg opt vi obj s) = ITERATING \<longrightarrow>
        improving_test (prev_obj s) (rBigM_objVal (solve_subproblems cfg opt vi obj s))
          (minimum_improvement_threshold cfg)
        = Inr (improving (solve_subproblems cfg opt vi obj s))"
    by (auto simp: solve_subproblems_def Let_def split_def copy_xstar_fields
        split: sum.splits if_splits)
  have c: "generate_cuttingplanes n cfg opt vi (Some obj) s
        = while_improving n cfg opt vi obj (s\<lparr>improving := True, prev_obj := Infinity\<rparr>)"
    by (simp add: generate_cuttingplanes_def)
  have d: "\<not> improving t \<and> \<not> \<bar>separation_objective vi t\<bar> < minimum_improvement_threshold cfg
        \<and> create_cuts cfg vi (create_hull_to_bigm_substitution_map vi) t
             (cut_filtering_threshold cfg) (zero_tolerance cfg) = Inr r \<longrightarrow>
        generate_and_add cfg opt vi t = t\<lparr>control := STALLED\<rparr>
        \<and> while_improving n cfg opt vi obj (t\<lparr>control := STALLED\<rparr>) = t\<lparr>control := STALLED\<rparr>"
    by (auto simp: generate_and_add_def Let_def while_improving_stops split: option.splits)
  have e: "control (generate_and_add cfg opt vi t) = ITERATING \<longrightarrow>
        prev_obj (generate_and_add cfg opt vi t)
        = Finite (rBigM_objVal (generate_and_add cfg opt vi t))"
    by (auto simp: generate_and_add_def Let_def split: sum.splits option.splits if_splits)
  show ?thesis using a b c d e by blast
qed

lemma improving_rule_example:
  "improving_test (Finite 10) 9 (1 / 100) = Inr True
   \<and> improving_test Infinity 9 (1 / 100) = Inr True
   \<and> improving (solve_subproblems CONFIG (fixed_solver [0 \<mapsto> 2] NORMAL [1 \<mapsto> 1]) [(0, 1, 0)] (V 0)
                   (initial_state\<lparr>prev_obj := Finite 2\<rparr>)) = False
   \<and> control (loop_body CONFIG (fixed_solver [0 \<mapsto> 2] NORMAL [1 \<mapsto> 1]) [(0, 1, 0)] (V 0)
                   (initial_state\<lparr>prev_obj := Finite 2\<rparr>)) = STALLED"
  using improving_rule [where prev = "Finite 10" and cur = 9 and eps = "1 / 100" and cfg = CONFIG
      and opt = "fixed_solver [0 \<mapsto> 2] NORMAL [1 \<mapsto> 1]" and vi = "[(0, 1, 0)]" and obj = "V 0"
      and s = "initial_state\<lparr>prev_obj := Finite 2\<rparr>" and n = 1 and t =
      "solve_subproblems CONFIG (fixed_solver [0 \<mapsto> 2] NORMAL [1 \<mapsto> 1]) [(0, 1, 0)] (V 0)
                   (initial_state\<lparr>prev_obj := Finite 2\<rparr>)"]
  by (simp add: run_defs improving_spec_def)

text \<open>
  C8. The claim: each round sets the improving flag by the formula on the previous and the
  current objective. The code branches on the size of the current objective and divides
  by the previous one, so with a previous objective of zero and a current one of at least
  one in absolute value line 698 raises \<^verbatim>\<open>ZeroDivisionError\<close> and no flag is set. In the
  run below round 1 ends with the objective 0 and adds a cut; in round 2 the objective is
  2 and the exception leaves the driver.
\<close>

theorem improving_test_divides_by_zero:
  "improving_test (Finite 0) 2 (1 / 100) = Inl ZeroDivisionError
   \<and> prev_obj (generate_cuttingplanes 1 CONFIG cut_dependent_solver [(0, 1, 0)] (Some (V 0))
                 initial_state) = Finite 0
   \<and> control (generate_cuttingplanes 1 CONFIG cut_dependent_solver [(0, 1, 0)] (Some (V 0))
                 initial_state) = ITERATING
   \<and> control (generate_cuttingplanes 2 CONFIG cut_dependent_solver [(0, 1, 0)] (Some (V 0))
                 initial_state) = RAISED ZeroDivisionError"
  by (simp add: generate_cuttingplanes_def eval_nat_numeral run_defs cut_dependent_solver_def)

subsection \<open>The cut store\<close>













subsection \<open>The Fourier-Motzkin generator\<close>

lemma violated_margin_pos: "\<not> holds \<sigma> c \<Longrightarrow> 0 < margin \<sigma> c"
  by (cases c) (simp add: margin_def)

lemma consider_cut_eq:
  "consider_cut \<sigma> thr (b, bc) x =
     (if holds \<sigma> x then (b, bc)
      else if thr < margin \<sigma> x \<and> b < margin \<sigma> x then (margin \<sigma> x, Some x)
      else (b, bc))"
  by (simp add: consider_cut_def margin_def Let_def)

lemma selection_invariant_step:
  assumes "selection_invariant \<sigma> thr xs acc"
  shows "selection_invariant \<sigma> thr (xs @ [x]) (consider_cut \<sigma> thr acc x)"
proof -
  obtain b bc where acc: "acc = (b, bc)" by (cases acc)
  show ?thesis
  proof (cases bc)
    case None
    then have inv: "b = 0" "\<forall>c\<in>set xs. \<not> holds \<sigma> c \<longrightarrow> margin \<sigma> c \<le> thr"
      using assms acc by (simp_all add: selection_invariant_def)
    show ?thesis
    proof (cases "holds \<sigma> x")
      case True
      then show ?thesis
        using inv None acc by (simp add: consider_cut_eq selection_invariant_def)
    next
      case False
      then have pos: "0 < margin \<sigma> x" by (rule violated_margin_pos)
      show ?thesis
      proof (cases "thr < margin \<sigma> x")
        case True
        then show ?thesis
          using inv None acc False pos
          by (auto simp: consider_cut_eq selection_invariant_def)
      next
        case nope: False
        then show ?thesis
          using inv None acc False
          by (auto simp: consider_cut_eq selection_invariant_def)
      qed
    qed
  next
    case (Some c)
    then have inv: "c \<in> set xs" "\<not> holds \<sigma> c" "margin \<sigma> c = b" "thr < b"
      "\<forall>c'\<in>set xs. \<not> holds \<sigma> c' \<longrightarrow> margin \<sigma> c' \<le> b"
      using assms acc by (simp_all add: selection_invariant_def)
    show ?thesis
    proof (cases "holds \<sigma> x")
      case True
      then show ?thesis
        using inv Some acc by (simp add: consider_cut_eq selection_invariant_def)
    next
      case False
      show ?thesis
      proof (cases "b < margin \<sigma> x")
        case True
        then have "thr < margin \<sigma> x" using inv(4) by simp
        then show ?thesis
          using inv Some acc False True
          by (auto simp: consider_cut_eq selection_invariant_def)
      next
        case nope: False
        then show ?thesis
          using inv Some acc False
          by (auto simp: consider_cut_eq selection_invariant_def)
      qed
    qed
  qed
qed

lemma consider_cut_invariant:
  "selection_invariant \<sigma> thr xs (foldl (consider_cut \<sigma> thr) (0, None) xs)"
proof (induction xs rule: rev_induct)
  case Nil
  then show ?case by (simp add: selection_invariant_def)
next
  case (snoc x xs)
  then show ?case
    using selection_invariant_step [OF snoc, of x] by simp
qed

lemma best_violated_cut_None:
  "best_violated_cut \<sigma> thr cs = None \<Longrightarrow> c \<in> set cs \<Longrightarrow> \<not> holds \<sigma> c \<Longrightarrow> margin \<sigma> c \<le> thr"
  using consider_cut_invariant [of \<sigma> thr "rev cs"]
  by (cases "foldl (consider_cut \<sigma> thr) (0, None) (rev cs)")
     (auto simp: best_violated_cut_def selection_invariant_def split: option.splits)


lemma linear_approximation_returns:
  "length normal_vec = length point \<Longrightarrow> \<exists>r. get_linear_approximation_expr normal_vec point \<sigma> = Inr r"
  by (simp add: get_linear_approximation_expr_def Let_def)

lemma as_constraint_cases:
  "as_constraint r = Inl ValueError \<or> (\<exists>c. as_constraint r = Inr c)"
  by (cases r) simp_all

lemma collect_tight_returns:
  assumes "\<forall>f. length (differentiate ext f rv) = length rv"
      and "\<forall>nv\<in>set nvs. length nv = length rv"
  shows "(\<exists>nvs' cl'. collect_tight ext rv dc \<sigma> cs nvs cl = Inr (nvs', cl')
            \<and> (\<forall>nv\<in>set nvs'. length nv = length rv))
       \<or> collect_tight ext rv dc \<sigma> cs nvs cl = Inl ValueError"
  using assms(2)
proof (induction cs arbitrary: nvs cl)
  case Nil
  then show ?case by simp
next
  case (Cons ic cs)
  obtain i c where ic: "ic = (i, c)" by (cases ic)
  let ?nv = "map (\<lambda>d. real_of_int (constraint_tight \<sigma> c) * value_of \<sigma> d)
               (differentiate ext (body c) rv)"
  have len: "length ?nv = length rv" using assms(1) by simp
  then have nvs': "\<forall>nv\<in>set (nvs @ [?nv]). length nv = length rv"
    using Cons.prems by simp
  obtain r where r: "get_linear_approximation_expr ?nv rv \<sigma> = Inr r"
    using linear_approximation_returns [OF len] by blast
  show ?case
  proof (cases "constraint_tight \<sigma> c = 0")
    case True
    then show ?thesis
      using Cons.IH [OF Cons.prems] by (simp add: ic Let_def)
  next
    case tight: False
    show ?thesis
    proof (cases "polynomial_degree ext (body c) = Some 1")
      case True
      then show ?thesis
        using tight Cons.IH [OF nvs'] by (simp add: ic Let_def)
    next
      case False
      from as_constraint_cases [of r] show ?thesis
      proof
        assume "as_constraint r = Inl ValueError"
        then show ?thesis using tight False r by (simp add: ic Let_def)
      next
        assume "\<exists>a. as_constraint r = Inr a"
        then obtain a where "as_constraint r = Inr a" by blast
        then show ?thesis
          using tight False r Cons.IH [OF nvs'] by (simp add: ic Let_def)
      qed
    qed
  qed
qed

lemma foldl_min_same:
  "\<forall>n\<in>set ns. n = (k::nat) \<Longrightarrow> foldl min k ns = k"
  by (induction ns) simp_all

lemma composite_normal_length:
  assumes "nvs \<noteq> []" and "\<forall>nv\<in>set nvs. length nv = n"
  shows "length (composite_normal nvs) = n"
proof -
  obtain xs rest where nvs: "nvs = xs # rest" using assms(1) by (cases nvs) auto
  have "foldl min (length xs) (map length rest) = length xs"
    using assms(2) nvs by (intro foldl_min_same) auto
  then show ?thesis
    using assms(2) nvs by (simp add: composite_normal_def zip_star_def)
qed

lemma composite_normal_map_defined:
  assumes "length cn = length rv" and "x \<in> set rv"
  shows "\<exists>n. map_of (rev (zip rv cn)) x = Some n"
proof -
  have "map fst (zip rv cn) = rv"
    using assms(1) by simp
  then have "fst ` set (rev (zip rv cn)) = set rv"
    by (metis set_map set_rev)
  then have "x \<in> fst ` set (rev (zip rv cn))"
    using assms(2) by simp
  then have "map_of (rev (zip rv cn)) x \<noteq> None"
    by (simp only: map_of_eq_None_iff not_not)
  then show ?thesis by blast
qed

lemma cutexpr_over_var_info_returns:
  assumes "\<forall>(b, h, t)\<in>set vi. \<exists>n. m h = Some n"
  shows "\<exists>e'. cutexpr_over_var_info m \<sigma> vi e = Inr e'"
  using assms by (induction vi arbitrary: e) auto

lemma cutexpr_over_disaggregated_returns:
  assumes "\<forall>x\<in>set dv. \<exists>n. m x = Some n"
  shows "\<exists>e' d'. cutexpr_over_disaggregated m \<sigma> dv (e, d) = Inr (e', d')"
  using assms by (induction dv arbitrary: e d) auto

lemma fme_translated_cuts_returns:
  assumes "\<forall>f. length (differentiate ext f rv) = length rv"
      and "\<forall>(b, h, t)\<in>set vi. h \<in> set rv"
      and "set dv \<subseteq> set rv"
  shows "(\<exists>t. fme_translated_cuts ext dv dc rv rc vi h2b s zt = Inr t)
       \<or> fme_translated_cuts ext dv dc rv rc vi h2b s zt = Inl ValueError"
proof -
  from collect_tight_returns [OF assms(1), of "[]" dc "var_value s" "enumerate 0 rc" "[]"]
  consider (raised) "collect_tight ext rv dc (var_value s) (enumerate 0 rc) [] [] = Inl ValueError"
    | (scanned) nvs cl where
        "collect_tight ext rv dc (var_value s) (enumerate 0 rc) [] [] = Inr (nvs, cl)"
        "\<forall>nv\<in>set nvs. length nv = length rv"
    by auto
  then show ?thesis
  proof cases
    case raised
    then show ?thesis by (simp add: fme_translated_cuts_def)
  next
    case (scanned nvs cl)
    show ?thesis
    proof (cases "nvs = []")
      case True
      then show ?thesis using scanned(1) by (simp add: fme_translated_cuts_def)
    next
      case False
      let ?m = "map_of (rev (zip rv (composite_normal nvs)))"
      have len: "length (composite_normal nvs) = length rv"
        using composite_normal_length [OF False scanned(2)] .
      have "\<forall>(b, h, t)\<in>set vi. \<exists>n. ?m h = Some n"
        using assms(2) composite_normal_map_defined [OF len] by fastforce
      then obtain e1 where e1: "cutexpr_over_var_info ?m (var_value s) vi (Num 0) = Inr e1"
        using cutexpr_over_var_info_returns by blast
      have "\<forall>x\<in>set dv. \<exists>n. ?m x = Some n"
        using assms(3) composite_normal_map_defined [OF len] by blast
      then obtain e2 d2 where e2:
        "cutexpr_over_disaggregated ?m (var_value s) dv (e1, False) = Inr (e2, d2)"
        using cutexpr_over_disaggregated_returns by blast
      from as_constraint_cases [of "py_le e2 (Num 0)"] show ?thesis
      proof
        assume "as_constraint (py_le e2 (Num 0)) = Inl ValueError"
        then show ?thesis
          using scanned(1) False e1 e2 by (simp add: fme_translated_cuts_def Let_def)
      next
        assume "\<exists>c. as_constraint (py_le e2 (Num 0)) = Inr c"
        then obtain c where "as_constraint (py_le e2 (Num 0)) = Inr c" by blast
        then show ?thesis
          using scanned(1) False e1 e2 by (simp add: fme_translated_cuts_def Let_def)
      qed
    qed
  qed
qed

text \<open>
  Two degenerate calls: a composite normal that is zero on every variable of the cut, and
  a tight nonlinear constraint with a zero gradient. Both end in \<^verbatim>\<open>ValueError\<close>.
\<close>

lemma fme_zero_composite_raises:
  "create_cuts_fme example_collaborators [] [] [1, 2] example_hull_constraints [(0, 1, 0)]
     [1 \<mapsto> 0] (initial_state\<lparr>var_value := (\<lambda>_. 1)(0 := 2)\<rparr>) (1 / 1000) (1 / 10 ^ 9)
   = Inl ValueError"
  by (simp add: create_cuts_fme_def fme_translated_cuts_def example_collaborators_def
      example_hull_constraints_def enumerate_eq_zip constraint_tight_def composite_normal_def
      zip_star_def Let_def)

lemma fme_zero_gradient_raises:
  "create_cuts_fme (example_collaborators\<lparr>polynomial_degree := (\<lambda>f. Some 2)\<rparr>) [2] [] [1]
     example_hull_constraints [(0, 1, 0)]
     [1 \<mapsto> 0] (initial_state\<lparr>var_value := (\<lambda>_. 1)(0 := 2)\<rparr>) (1 / 1000) (1 / 10 ^ 9)
   = Inl ValueError"
  by (simp add: create_cuts_fme_def fme_translated_cuts_def example_collaborators_def
      example_hull_constraints_def enumerate_eq_zip constraint_tight_def
      get_linear_approximation_expr_def Let_def)




subsection \<open>The subproblems\<close>

text \<open>
  C10 (amended). The model that the \<^verbatim>\<open>tighten_relaxation\<close> callback returns is bound to
  \<^verbatim>\<open>tighter_instance\<close> and never read: two callbacks that leave the instance in the same
  condition and differ only in what they return give the same subproblems, the hull
  relaxation among them; with a callback that leaves the instance as it is the result is
  the one of the default callback, whatever the callback returns; and the hull relaxation
  is built from the instance as the call left it, not from the returned model.
\<close>

theorem hull_relaxation_ignores_tightened_model:
  "setup_subproblems ext inst bigM (\<lambda>m. (r1 m, e m))
     = setup_subproblems ext inst bigM (\<lambda>m. (r2 m, e m))
   \<and> setup_subproblems ext inst bigM (\<lambda>m. (r m, m))
     = setup_subproblems ext inst bigM do_not_tighten
   \<and> (setup_subproblems ext inst bigM callback
          = Inr (instance_rBigM, instance_rHull, var_info, rest) \<longrightarrow>
        instance_rHull
          = add_xstar_and_separation_objective ext var_info
              (relax_integer_vars ext
                 (hull_create_using ext (snd (callback (add_relaxation_block ext inst))))))"
  by (auto simp: setup_subproblems_def do_not_tighten_def Let_def split_def split: sum.splits)

theorem hull_relaxation_ignores_tightened_model_witness:
  "setup_subproblems example_modelling 0 None (\<lambda>m. (m + 7, m))
   = Inr (1, 100, [(0, 0, 0)], [], [], [])"
  using hull_relaxation_ignores_tightened_model
    [where ext = example_modelling and inst = 0 and bigM = None and callback = "\<lambda>m. (m + 7, m)"]
  by (simp add: setup_subproblems_def example_modelling_def make_var_info_def enumerate_eq_zip)

text \<open>
  The claim as stated fails for a callback that tightens the instance in place: the hull
  relaxation is then the one of the changed instance (107), not the one of the instance
  the transformation was given (100).
\<close>

theorem hull_relaxation_of_changed_instance_counterexample:
  "setup_subproblems example_modelling 0 None (\<lambda>m. (m + 7, m + 7))
     = Inr (8, 107, [(0, 0, 0)], [], [], [])
   \<and> setup_subproblems example_modelling 0 None do_not_tighten
     = Inr (1, 100, [(0, 0, 0)], [], [], [])"
  by (simp add: setup_subproblems_def example_modelling_def do_not_tighten_def
      make_var_info_def enumerate_eq_zip)

subsection \<open>Soundness of the cuts\<close>

text \<open>
  The cut of the normal-vector generator is the supporting hyperplane at the separation
  point: when the hull variables hold the closest point of a convex region to the target,
  the cut holds at every big-M point whose image lies in the region
  (\<open>normal_vector_cut_valid\<close>), and a non-negative pad of a cut \<open>lower \<le> body\<close> keeps
  every point that satisfied it (\<open>padding_loosens\<close>).
\<close>

lemma separation_objective_foldl:
  "foldl (\<lambda>obj_expr (x_rbigm, x_hull, x_star). obj_expr + (hv x_hull - xs x_star)\<^sup>2) a vi
   = (a::real) + (\<Sum>(b, h, t)\<leftarrow>vi. (hv h - xs t)\<^sup>2)"
  by (induction vi arbitrary: a) (auto simp: algebra_simps)

lemma separation_objective_distance:
  "separation_objective vi s = squared_distance vi (xstar s) (var_value s)"
  by (simp add: separation_objective_def squared_distance_def separation_objective_foldl)

lemma squared_distance_segment:
  "squared_distance vi xs (\<lambda>x. (1 - l) * \<sigma> x + l * \<tau> x)
   = squared_distance vi xs \<sigma>
     + 2 * l * (\<Sum>(b, h, t)\<leftarrow>vi. (\<sigma> h - xs t) * (\<tau> h - \<sigma> h))
     + l\<^sup>2 * (\<Sum>(b, h, t)\<leftarrow>vi. (\<tau> h - \<sigma> h)\<^sup>2)"
  unfolding squared_distance_def
  by (induction vi) (auto simp: algebra_simps power2_eq_square)

lemma sum_squares_nonneg: "0 \<le> (\<Sum>(b, h, t)\<leftarrow>vi. ((\<tau> h - \<sigma> h)::real)\<^sup>2)"
  by (induction vi) auto

lemma ratio_bounds:
  fixes B C :: real
  assumes "B < 0" and "0 < C" and "- B < C"
  shows "0 < - B / C" and "- B / C \<le> 1"
  using assms by (simp_all add: field_simps)

lemma projection_inequality:
  assumes "convex_region P" and "closest_point vi xs P \<sigma>" and "\<tau> \<in> P"
  shows "0 \<le> (\<Sum>(b, h, t)\<leftarrow>vi. (\<sigma> h - xs t) * (\<tau> h - \<sigma> h))"
proof (rule ccontr)
  let ?B = "\<Sum>(b, h, t)\<leftarrow>vi. (\<sigma> h - xs t) * (\<tau> h - \<sigma> h)"
  let ?C = "\<Sum>(b, h, t)\<leftarrow>vi. (\<tau> h - \<sigma> h)\<^sup>2"
  assume "\<not> 0 \<le> ?B"
  then have B: "?B < 0" by simp
  have C: "0 \<le> ?C" by (rule sum_squares_nonneg)
  have \<sigma>: "\<sigma> \<in> P" using assms(2) by (simp add: closest_point_def)
  have step: "0 \<le> 2 * l * ?B + l\<^sup>2 * ?C" if "0 \<le> l" "l \<le> 1" for l
  proof -
    have "(\<lambda>x. (1 - l) * \<sigma> x + l * \<tau> x) \<in> P"
      using assms(1) \<sigma> assms(3) that unfolding convex_region_def by blast
    then have "squared_distance vi xs \<sigma> \<le> squared_distance vi xs (\<lambda>x. (1 - l) * \<sigma> x + l * \<tau> x)"
      using assms(2) by (simp add: closest_point_def)
    then show ?thesis by (simp add: squared_distance_segment)
  qed
  show False
  proof (cases "?C \<le> - ?B")
    case True
    have "0 \<le> 2 * ?B + ?C" using step [of 1] by simp
    then show False using True B by simp
  next
    case False
    then have Cpos: "0 < ?C" and lt: "- ?B < ?C" using B by simp_all
    define l where "l = - ?B / ?C"
    have l: "0 < l" "l \<le> 1"
      unfolding l_def using ratio_bounds [OF B Cpos lt] by blast+
    have lC: "l * ?C = - ?B" using Cpos by (simp add: l_def)
    have "0 \<le> 2 * l * ?B + l\<^sup>2 * ?C" using step [of l] l by simp
    also have "2 * l * ?B + l\<^sup>2 * ?C = l * (2 * ?B + l * ?C)"
      by (simp add: algebra_simps power2_eq_square)
    also have "\<dots> = l * ?B" using lC by simp
    finally have "0 \<le> l * ?B" .
    moreover have "l * ?B < 0" using l(1) B by (simp add: mult_pos_neg)
    ultimately show False by simp
  qed
qed

lemma normal_vector_cut_valid:
  assumes "convex_region P"
      and "closest_point vi (xstar s) P (var_value s)"
      and "\<tau> \<in> P"
      and "\<forall>(b, h, t)\<in>set vi. \<rho> b = \<tau> h"
  shows "holds \<rho> (Le (Num 0) (normal_vector_cutexpr vi s))"
proof -
  have "(\<Sum>(b, h, t)\<leftarrow>vi. (var_value s h - xstar s t) * (\<rho> b - var_value s h))
      = (\<Sum>(b, h, t)\<leftarrow>vi. (var_value s h - xstar s t) * (\<tau> h - var_value s h))"
    using assms(4) by (induction vi) auto
  then show ?thesis
    using projection_inequality [OF assms(1,2,3)]
    by (simp add: value_of_normal_vector_cutexpr)
qed

lemma padding_loosens:
  assumes "satisfied \<rho> c" and "upper c = None" and "0 \<le> pad"
  shows "satisfied \<rho> (c\<lparr>body := Add (body c) (Num pad)\<rparr>)"
  using assms by (auto simp: satisfied_def split: option.splits)

text \<open>
  C1. The claim: every cut added to the store is satisfied by every feasible point of the
  disjunctive program. The cut of a round is built from the point the separation solve
  leaves in the hull variables, whether or not that solve ended normally: its status is
  never read (\<open>hull_status_never_read\<close>). In
  the run below on the two-disjunct program the relaxed big-M solve ends at
  \<open>(x, y1, y2) = (2, 1/2, 1/2)\<close>, the separation solve ends \<open>NONOPTIMAL\<close> and leaves
  \<open>(1, 1/2, 1/2)\<close>, no post-processing is configured, and the round adds the cut
  \<open>0 \<le> - (x - 1)\<close>, which the feasible point \<open>(3/2, 1, 0)\<close> violates.
\<close>

theorem cut_from_failed_separation_unsound:
  "cuts (loop_body (CONFIG\<lparr>post_process_cut := None\<rparr>)
           (fixed_solver [0 \<mapsto> 2, 1 \<mapsto> 1 / 2, 2 \<mapsto> 1 / 2] NONOPTIMAL
              [3 \<mapsto> 1, 4 \<mapsto> 1 / 2, 5 \<mapsto> 1 / 2])
           two_disjunct_var_info (V 0) initial_state)
   = [(0, \<lparr>lower = Some (Num 0),
           body = Add (Add (Add (Num 0) (Mul (Num (- 1)) (Sub (V 0) (Num 1))))
                           (Mul (Num 0) (Sub (V 1) (Num (1 / 2)))))
                      (Mul (Num 0) (Sub (V 2) (Num (1 / 2)))),
           upper = None\<rparr>)]
   \<and> two_disjunct_feasible ((\<lambda>_. 0)(0 := 3 / 2, 1 := 1))
   \<and> \<not> satisfied ((\<lambda>_. 0)(0 := 3 / 2, 1 := 1))
         \<lparr>lower = Some (Num 0),
          body = Add (Add (Add (Num 0) (Mul (Num (- 1)) (Sub (V 0) (Num 1))))
                          (Mul (Num 0) (Sub (V 1) (Num (1 / 2)))))
                     (Mul (Num 0) (Sub (V 2) (Num (1 / 2)))),
          upper = None\<rparr>"
  by (simp add: run_defs two_disjunct_var_info_def two_disjunct_feasible_def satisfied_def)

end
